theory Spec2Isabelle
  imports Main
begin

section \<open>Account views of flask-authentic\<close>

text \<open>
  The module \<^verbatim>\<open>flask_authentic/account/views.py\<close> defines one mixin and seven view
  classes. Everything else it names is imported: the configuration object, the request
  and the context, \<^verbatim>\<open>perform_import\<close>, the use-case and request-object classes, the
  \<^verbatim>\<open>is_authenticated\<close> decorator and the base views with their \<^verbatim>\<open>_process_request\<close>.
  The imported functions are parameters of the model, each free to change the state it
  runs in; the imported objects are read as the values their attributes yield.
\<close>

subsection \<open>Python values and exceptions\<close>

text \<open>
  A float by sign, mantissa and binary exponent, or one of the special values. Only
  whether it is zero matters here; \<^verbatim>\<open>0.0\<close> and \<^verbatim>\<open>-0.0\<close> are both zero.
\<close>

datatype pyfloat = Float_finite bool nat int | Float_inf bool | Float_nan

fun float_is_zero :: "pyfloat \<Rightarrow> bool" where
  "float_is_zero (Float_finite negative mantissa exponent) = (mantissa = 0)"
| "float_is_zero (Float_inf negative) = False"
| "float_is_zero Float_nan = False"

text \<open>
  What the truth test finds on an object of a class: no \<^verbatim>\<open>__bool__\<close> and no
  \<^verbatim>\<open>__len__\<close>; a \<^verbatim>\<open>__bool__\<close>, with what calling it gives; or a \<^verbatim>\<open>__len__\<close> (and no
  \<^verbatim>\<open>__bool__\<close>), with what calling it gives. A call gives a result or raises, the
  exception written by its class name; a \<^verbatim>\<open>__bool__\<close> that returns a non-boolean and a
  \<^verbatim>\<open>__len__\<close> that returns a negative or a non-integer are raises of the interpreter
  (\<^verbatim>\<open>TypeError\<close>, \<^verbatim>\<open>ValueError\<close>).
\<close>

datatype truth_methods =
    No_truth_method
  | Bool_method "string + bool"
  | Len_method "string + nat"

text \<open>
  The values that travel through the views. \<open>PEntity\<close> is an instance of
  \<^verbatim>\<open>protean.core.entity.Entity\<close> (or of a subclass) with its truth methods and its
  attributes, \<open>PObject\<close> an instance of any other class, tagged with the class name.
\<close>

datatype pyval =
    PNone
  | PBool bool
  | PInt int
  | PFloat pyfloat
  | PComplex pyfloat pyfloat
  | PStr string
  | PBytes "nat list"
  | PList "pyval list"
  | PTuple "pyval list"
  | PSet "pyval list"
  | PDict "(string \<times> pyval) list"
  | PEntity truth_methods "(string \<times> pyval) list"
  | PObject string truth_methods "(string \<times> pyval) list"

text \<open>
  Exceptions: the two this module can raise itself (\<^verbatim>\<open>ConfigurationError\<close> by a
  \<^verbatim>\<open>raise\<close> statement, \<^verbatim>\<open>AttributeError\<close> by an attribute access), the one a truth
  test raises, by its class name, and whatever an imported function raises, which passes
  through the module untouched.
\<close>

datatype 'e exn =
    ConfigurationError string
  | AttributeError string
  | Raised string
  | Propagated 'e

definition propagate :: "'e + 'a \<Rightarrow> 'e exn + 'a" where
  "propagate r = (case r of Inl e \<Rightarrow> Inl (Propagated e) | Inr v \<Rightarrow> Inr v)"

text \<open>
  Python's truth test, as \<^verbatim>\<open>not x\<close> runs it: the built-in types by their value, an
  object by its \<^verbatim>\<open>__bool__\<close>, else by its \<^verbatim>\<open>__len__\<close>, else true. The test of an object
  can raise.
\<close>

fun object_truth :: "truth_methods \<Rightarrow> string + bool" where
  "object_truth No_truth_method = Inr True"
| "object_truth (Bool_method (Inl e)) = Inl e"
| "object_truth (Bool_method (Inr b)) = Inr b"
| "object_truth (Len_method (Inl e)) = Inl e"
| "object_truth (Len_method (Inr n)) = Inr (n \<noteq> 0)"

fun truthy :: "pyval \<Rightarrow> string + bool" where
  "truthy PNone = Inr False"
| "truthy (PBool b) = Inr b"
| "truthy (PInt i) = Inr (i \<noteq> 0)"
| "truthy (PFloat x) = Inr (\<not> float_is_zero x)"
| "truthy (PComplex re im) = Inr (\<not> (float_is_zero re \<and> float_is_zero im))"
| "truthy (PStr s) = Inr (s \<noteq> [])"
| "truthy (PBytes bs) = Inr (bs \<noteq> [])"
| "truthy (PList xs) = Inr (xs \<noteq> [])"
| "truthy (PTuple xs) = Inr (xs \<noteq> [])"
| "truthy (PSet xs) = Inr (xs \<noteq> [])"
| "truthy (PDict kvs) = Inr (kvs \<noteq> [])"
| "truthy (PEntity truth attrs) = object_truth truth"
| "truthy (PObject cls truth attrs) = object_truth truth"

text \<open>Attribute access \<^verbatim>\<open>obj.name\<close>: only objects that carry attributes have one.\<close>

fun getattr_py :: "pyval \<Rightarrow> string \<Rightarrow> 'e exn + pyval" where
  "getattr_py (PEntity truth attrs) name =
     (case map_of attrs name of None \<Rightarrow> Inl (AttributeError name) | Some v \<Rightarrow> Inr v)"
| "getattr_py (PObject cls truth attrs) name =
     (case map_of attrs name of None \<Rightarrow> Inl (AttributeError name) | Some v \<Rightarrow> Inr v)"
| "getattr_py v name = Inl (AttributeError name)"

text \<open>\<^verbatim>\<open>isinstance(response, Entity)\<close>.\<close>

fun isinstance_Entity :: "pyval \<Rightarrow> bool" where
  "isinstance_Entity (PEntity truth attrs) = True"
| "isinstance_Entity v = False"


subsection \<open>The state the module runs in\<close>

text \<open>
  \<^verbatim>\<open>active_config\<close>, as far as this module reads it: the values of its two settings.
  A setting that was never given a class path holds \<open>PNone\<close>.
\<close>

record config =
  ACCOUNT_SCHEMA_CLS :: pyval
  ACCOUNT_SERIALIZER_CLS :: pyval

text \<open>
  What the module can see and what imported code can change: the configuration, the
  account of the context (\<^verbatim>\<open>context.account\<close>), the payload of the request
  (\<^verbatim>\<open>request.payload\<close>), and the entities and tokens the use-case layer owns, of a
  type \<open>'s\<close> this module knows nothing about.
\<close>

record 's world =
  active_config :: config
  context_account :: pyval
  request_payload :: pyval
  store :: 's

subsection \<open>The mixin\<close>

text \<open>
  \<^verbatim>\<open>AccountViewMixin\<close>. The imported \<^verbatim>\<open>perform_import\<close> is the parameter: it maps the
  setting to a class of type \<open>'c\<close> or raises and, being code of another package, may
  change the world. A getter that raises by itself returns the world it was given.
\<close>

type_synonym ('e, 'c, 's) perform_import = "pyval \<Rightarrow> 's world \<Rightarrow> ('e + 'c) \<times> 's world"

definition get_schema_cls ::
  "('e, 'c, 's) perform_import \<Rightarrow> 's world \<Rightarrow> ('e exn + 'c) \<times> 's world" where
  "get_schema_cls perform_import w =
     (case truthy (ACCOUNT_SCHEMA_CLS (active_config w)) of
        Inl e \<Rightarrow> (Inl (Raised e), w)
      | Inr t \<Rightarrow>
          if \<not> t
          then (Inl (ConfigurationError ''`ACCOUNT_SCHEMA_CLS` has not been set in the config.''),
                w)
          else (case perform_import (ACCOUNT_SCHEMA_CLS (active_config w)) w of
                  (r, w') \<Rightarrow> (propagate r, w')))"

definition get_serializer_cls ::
  "('e, 'c, 's) perform_import \<Rightarrow> 's world \<Rightarrow> ('e exn + 'c) \<times> 's world" where
  "get_serializer_cls perform_import w =
     (case truthy (ACCOUNT_SERIALIZER_CLS (active_config w)) of
        Inl e \<Rightarrow> (Inl (Raised e), w)
      | Inr t \<Rightarrow>
          if \<not> t
          then (Inl (ConfigurationError
                  ''`ACCOUNT_SERIALIZER_CLS` has not been set in the config.''), w)
          else (case perform_import (ACCOUNT_SERIALIZER_CLS (active_config w)) w of
                  (r, w') \<Rightarrow> (propagate r, w')))"

subsection \<open>The view classes and their class attributes\<close>

datatype view =
    CreateAccountResource
  | UpdateAccountResource
  | ChangePasswordResource
  | SendResetPasswordEmailResource
  | ResetPasswordResource
  | LoginResource
  | LogoutResource

text \<open>The classes imported from \<^verbatim>\<open>authentic.usecases.core\<close>, under their own names.\<close>

datatype usecase =
    CreateAccountUseCase
  | UpdateAccountUseCase
  | ChangeAccountPasswordUseCase
  | SendResetPasswordEmailUsecase
  | ResetPasswordUsecase
  | LoginUseCase
  | LogoutUseCase

datatype request_object =
    CreateAccountRequestObject
  | UpdateAccountRequestObject
  | ChangeAccountPasswordRequestObject
  | SendResetPasswordEmailRequestObject
  | ResetPasswordRequestObject
  | LoginRequestObject
  | LogoutRequestObject

datatype base_cls = AccountViewMixin | CreateAPIResource | UpdateAPIResource | GenericAPIResource

datatype decorator = is_authenticated

datatype http_method = GET | POST | PUT | PATCH | DELETE

text \<open>The view classes in the order the module defines them.\<close>

definition views :: "view list" where
  "views = [CreateAccountResource, UpdateAccountResource, ChangePasswordResource,
            SendResetPasswordEmailResource, ResetPasswordResource, LoginResource,
            LogoutResource]"

fun bases :: "view \<Rightarrow> base_cls list" where
  "bases CreateAccountResource = [AccountViewMixin, CreateAPIResource]"
| "bases UpdateAccountResource = [AccountViewMixin, UpdateAPIResource]"
| "bases ChangePasswordResource = [AccountViewMixin, GenericAPIResource]"
| "bases SendResetPasswordEmailResource = [AccountViewMixin, GenericAPIResource]"
| "bases ResetPasswordResource = [AccountViewMixin, GenericAPIResource]"
| "bases LoginResource = [AccountViewMixin, GenericAPIResource]"
| "bases LogoutResource = [AccountViewMixin, GenericAPIResource]"

fun request_object_cls :: "view \<Rightarrow> request_object" where
  "request_object_cls CreateAccountResource = CreateAccountRequestObject"
| "request_object_cls UpdateAccountResource = UpdateAccountRequestObject"
| "request_object_cls ChangePasswordResource = ChangeAccountPasswordRequestObject"
| "request_object_cls SendResetPasswordEmailResource = SendResetPasswordEmailRequestObject"
| "request_object_cls ResetPasswordResource = ResetPasswordRequestObject"
| "request_object_cls LoginResource = LoginRequestObject"
| "request_object_cls LogoutResource = LogoutRequestObject"

fun usecase_cls :: "view \<Rightarrow> usecase" where
  "usecase_cls CreateAccountResource = CreateAccountUseCase"
| "usecase_cls UpdateAccountResource = UpdateAccountUseCase"
| "usecase_cls ChangePasswordResource = ChangeAccountPasswordUseCase"
| "usecase_cls SendResetPasswordEmailResource = SendResetPasswordEmailUsecase"
| "usecase_cls ResetPasswordResource = ResetPasswordUsecase"
| "usecase_cls LoginResource = LoginUseCase"
| "usecase_cls LogoutResource = LogoutUseCase"

text \<open>
  The \<^verbatim>\<open>decorators\<close> attribute of each class body. Three classes assign none; the
  empty list stands for that.
\<close>

fun decorators :: "view \<Rightarrow> decorator list" where
  "decorators CreateAccountResource = [is_authenticated]"
| "decorators UpdateAccountResource = [is_authenticated]"
| "decorators ChangePasswordResource = [is_authenticated]"
| "decorators SendResetPasswordEmailResource = []"
| "decorators ResetPasswordResource = []"
| "decorators LoginResource = []"
| "decorators LogoutResource = [is_authenticated]"

text \<open>
  The HTTP methods a class body defines a handler for. The create and update views
  define none of their own: theirs come from the imported base classes.
\<close>

fun handlers :: "view \<Rightarrow> http_method list" where
  "handlers CreateAccountResource = []"
| "handlers UpdateAccountResource = []"
| "handlers ChangePasswordResource = [POST]"
| "handlers SendResetPasswordEmailResource = [POST]"
| "handlers ResetPasswordResource = [POST]"
| "handlers LoginResource = [POST]"
| "handlers LogoutResource = [POST]"

text \<open>A view is guarded when \<^verbatim>\<open>is_authenticated()\<close> is among its decorators.\<close>

definition guarded :: "view \<Rightarrow> bool" where
  "guarded v = (is_authenticated \<in> set (decorators v))"

subsection \<open>The imported request processing\<close>

text \<open>
  The imported \<^verbatim>\<open>_process_request(usecase_cls, request_object_cls, payload,
  no_serialization)\<close> of the base view: it runs the use-case, may change anything in the
  world, and returns a response or raises.
\<close>

type_synonym ('e, 's) process_request =
  "usecase \<Rightarrow> request_object \<Rightarrow> pyval \<Rightarrow> bool \<Rightarrow> 's world \<Rightarrow> ('e + pyval) \<times> 's world"

definition call_process_request ::
  "('e, 's) process_request \<Rightarrow> usecase \<Rightarrow> request_object \<Rightarrow> pyval \<Rightarrow> bool \<Rightarrow> 's world
     \<Rightarrow> ('e exn + pyval) \<times> 's world" where
  "call_process_request process_request uc ro payload no_serialization w =
     (case process_request uc ro payload no_serialization w of
        (r, w') \<Rightarrow> (propagate r, w'))"

subsection \<open>The handlers\<close>

text \<open>
  \<^verbatim>\<open>ChangePasswordResource.post\<close>. The dictionary display evaluates
  \<^verbatim>\<open>context.account.id\<close> first, which raises when the account has no such attribute.
\<close>

definition ChangePasswordResource_payload :: "'s world \<Rightarrow> 'e exn + pyval" where
  "ChangePasswordResource_payload w =
     (case getattr_py (context_account w) ''id'' of
        Inl e \<Rightarrow> Inl e
      | Inr ident \<Rightarrow> Inr (PDict [(''identifier'', ident), (''data'', request_payload w)]))"

definition ChangePasswordResource_post ::
  "('e, 's) process_request \<Rightarrow> 's world \<Rightarrow> ('e exn + pyval) \<times> 's world" where
  "ChangePasswordResource_post process_request w =
     (case ChangePasswordResource_payload w of
        Inl e \<Rightarrow> (Inl e, w)
      | Inr payload \<Rightarrow>
          call_process_request process_request
            (usecase_cls ChangePasswordResource) (request_object_cls ChangePasswordResource)
            payload True w)"

text \<open>\<^verbatim>\<open>SendResetPasswordEmailResource.post\<close>.\<close>

definition SendResetPasswordEmailResource_post ::
  "('e, 's) process_request \<Rightarrow> 's world \<Rightarrow> ('e exn + pyval) \<times> 's world" where
  "SendResetPasswordEmailResource_post process_request w =
     call_process_request process_request
       (usecase_cls SendResetPasswordEmailResource)
       (request_object_cls SendResetPasswordEmailResource)
       (request_payload w) True w"

text \<open>\<^verbatim>\<open>ResetPasswordResource.post(token)\<close>.\<close>

definition ResetPasswordResource_post ::
  "('e, 's) process_request \<Rightarrow> pyval \<Rightarrow> 's world \<Rightarrow> ('e exn + pyval) \<times> 's world" where
  "ResetPasswordResource_post process_request token w =
     call_process_request process_request
       (usecase_cls ResetPasswordResource) (request_object_cls ResetPasswordResource)
       (PDict [(''token'', token), (''data'', request_payload w)]) True w"

text \<open>
  \<^verbatim>\<open>LoginResource.post\<close>. \<^verbatim>\<open>to_dict\<close> is the method of the imported \<^verbatim>\<open>Entity\<close> class,
  a parameter here; it runs in the world the use-case left and may change it.
\<close>

type_synonym ('e, 's) to_dict = "pyval \<Rightarrow> 's world \<Rightarrow> ('e + pyval) \<times> 's world"

definition LoginResource_post ::
  "('e, 's) process_request \<Rightarrow> ('e, 's) to_dict \<Rightarrow> 's world
     \<Rightarrow> ('e exn + pyval) \<times> 's world" where
  "LoginResource_post process_request to_dict w =
     (case call_process_request process_request
             (usecase_cls LoginResource) (request_object_cls LoginResource)
             (request_payload w) True w of
        (Inl e, w') \<Rightarrow> (Inl e, w')
      | (Inr response, w') \<Rightarrow>
          if isinstance_Entity response
          then (case to_dict response w' of (r, w'') \<Rightarrow> (propagate r, w''))
          else (Inr response, w'))"

text \<open>\<^verbatim>\<open>LogoutResource.post\<close>.\<close>

definition LogoutResource_post ::
  "('e, 's) process_request \<Rightarrow> 's world \<Rightarrow> ('e exn + pyval) \<times> 's world" where
  "LogoutResource_post process_request w =
     call_process_request process_request
       (usecase_cls LogoutResource) (request_object_cls LogoutResource)
       (PDict [(''account'', context_account w)]) True w"

text \<open>
  \<^verbatim>\<open>CreateAccountResource\<close> and \<^verbatim>\<open>UpdateAccountResource\<close> have no method of their own.
  A request to them runs the handler of the imported base class (\<^verbatim>\<open>CreateAPIResource\<close>,
  \<^verbatim>\<open>UpdateAPIResource\<close>) on the view, and what the view gives that handler is its two class
  attributes and the two getters of the mixin. The handler is a parameter.
\<close>

type_synonym ('e, 'c, 's) base_handler =
  "usecase \<Rightarrow> request_object
     \<Rightarrow> ('s world \<Rightarrow> ('e exn + 'c) \<times> 's world)
     \<Rightarrow> ('s world \<Rightarrow> ('e exn + 'c) \<times> 's world)
     \<Rightarrow> 's world \<Rightarrow> ('e exn + pyval) \<times> 's world"

definition CreateAccountResource_dispatch ::
  "('e, 'c, 's) base_handler \<Rightarrow> ('e, 'c, 's) perform_import \<Rightarrow> 's world
     \<Rightarrow> ('e exn + pyval) \<times> 's world" where
  "CreateAccountResource_dispatch base_handler perform_import w =
     base_handler (usecase_cls CreateAccountResource) (request_object_cls CreateAccountResource)
       (get_schema_cls perform_import) (get_serializer_cls perform_import) w"

definition UpdateAccountResource_dispatch ::
  "('e, 'c, 's) base_handler \<Rightarrow> ('e, 'c, 's) perform_import \<Rightarrow> 's world
     \<Rightarrow> ('e exn + pyval) \<times> 's world" where
  "UpdateAccountResource_dispatch base_handler perform_import w =
     base_handler (usecase_cls UpdateAccountResource) (request_object_cls UpdateAccountResource)
       (get_schema_cls perform_import) (get_serializer_cls perform_import) w"

subsection \<open>Example inputs\<close>

text \<open>
  A world with an authenticated account of id 7 and a change-password payload that
  carries an \<open>identifier\<close> key of its own, and a use-case runner that answers with the
  payload it was given and counts its invocations in the store.
\<close>

definition example_world :: "nat world" where
  "example_world =
     \<lparr>active_config = \<lparr>ACCOUNT_SCHEMA_CLS = PNone, ACCOUNT_SERIALIZER_CLS = PNone\<rparr>,
      context_account = PEntity No_truth_method [(''id'', PInt 7), (''username'', PStr ''ann'')],
      request_payload = PDict [(''identifier'', PInt 99), (''new_password'', PStr ''s3cret'')],
      store = 0\<rparr>"

definition echo_process_request :: "(unit, nat) process_request" where
  "echo_process_request uc ro payload no_serialization w =
     (Inr payload, w\<lparr>store := Suc (store w)\<rparr>)"

text \<open>A runner that answers a login with the account entity of the context.\<close>

definition login_process_request :: "(unit, nat) process_request" where
  "login_process_request uc ro payload no_serialization w =
     (Inr (context_account w), w\<lparr>store := Suc (store w)\<rparr>)"

definition example_to_dict :: "(unit, nat) to_dict" where
  "example_to_dict v w =
     (case v of PEntity truth attrs \<Rightarrow> (Inr (PDict attrs), w) | _ \<Rightarrow> (Inl (), w))"

text \<open>
  A configuration whose schema setting is a class path and whose serializer setting is an
  object of length zero, and an import that answers with the path and counts in the store.
\<close>

definition example_config_world :: "nat world" where
  "example_config_world =
     example_world\<lparr>active_config :=
       \<lparr>ACCOUNT_SCHEMA_CLS = PStr ''app.schemas.AccountSchema'',
        ACCOUNT_SERIALIZER_CLS = PObject ''FalsyPath'' (Len_method (Inr 0)) []\<rparr>\<rparr>"

definition example_perform_import :: "(unit, pyval, nat) perform_import" where
  "example_perform_import v w = (Inr v, w\<lparr>store := Suc (store w)\<rparr>)"

definition example_base_handler :: "(unit, pyval, nat) base_handler" where
  "example_base_handler uc ro schema_getter serializer_getter w =
     (case schema_getter w of
        (Inl e, w') \<Rightarrow> (Inl e, w')
      | (Inr cls, w') \<Rightarrow> (Inr (PList [cls, request_payload w']), w'))"

section \<open>Configuration errors\<close>

lemma propagate_not_ConfigurationError: "propagate r \<noteq> Inl (ConfigurationError m)"
  by (cases r) (simp_all add: propagate_def)

lemma get_schema_cls_eq:
  "get_schema_cls perform_import w =
     (case truthy (ACCOUNT_SCHEMA_CLS (active_config w)) of
        Inl e \<Rightarrow> (Inl (Raised e), w)
      | Inr False \<Rightarrow>
          (Inl (ConfigurationError ''`ACCOUNT_SCHEMA_CLS` has not been set in the config.''), w)
      | Inr True \<Rightarrow>
          (propagate (fst (perform_import (ACCOUNT_SCHEMA_CLS (active_config w)) w)),
           snd (perform_import (ACCOUNT_SCHEMA_CLS (active_config w)) w)))"
  by (simp add: get_schema_cls_def split: sum.split prod.split bool.split)

lemma get_serializer_cls_eq:
  "get_serializer_cls perform_import w =
     (case truthy (ACCOUNT_SERIALIZER_CLS (active_config w)) of
        Inl e \<Rightarrow> (Inl (Raised e), w)
      | Inr False \<Rightarrow>
          (Inl (ConfigurationError ''`ACCOUNT_SERIALIZER_CLS` has not been set in the config.''),
           w)
      | Inr True \<Rightarrow>
          (propagate (fst (perform_import (ACCOUNT_SERIALIZER_CLS (active_config w)) w)),
           snd (perform_import (ACCOUNT_SERIALIZER_CLS (active_config w)) w)))"
  by (simp add: get_serializer_cls_def split: sum.split prod.split bool.split)

text \<open>
  Claim C1. In every world, \<open>get_schema_cls\<close> raises a \<^verbatim>\<open>ConfigurationError\<close> of its own
  exactly when the setting \<^verbatim>\<open>ACCOUNT_SCHEMA_CLS\<close> is falsy (Python's truth test of it
  gives false: \<^verbatim>\<open>None\<close>, an empty string, a zero, an object whose \<^verbatim>\<open>__bool__\<close> answers
  false or whose length is zero), and \<open>get_serializer_cls\<close> exactly when
  \<^verbatim>\<open>ACCOUNT_SERIALIZER_CLS\<close> is. With a truthy setting each returns what
  \<^verbatim>\<open>perform_import\<close> yields for it, and the only exception it can end in is one that
  \<^verbatim>\<open>perform_import\<close> raised.
\<close>

theorem get_cls_raises_iff_setting_absent:
  "((\<exists>m. fst (get_schema_cls perform_import w) = Inl (ConfigurationError m))
      = (truthy (ACCOUNT_SCHEMA_CLS (active_config w)) = Inr False))
   \<and> ((\<exists>m. fst (get_serializer_cls perform_import w) = Inl (ConfigurationError m))
      = (truthy (ACCOUNT_SERIALIZER_CLS (active_config w)) = Inr False))
   \<and> get_schema_cls perform_import w =
       (case truthy (ACCOUNT_SCHEMA_CLS (active_config w)) of
          Inl e \<Rightarrow> (Inl (Raised e), w)
        | Inr False \<Rightarrow>
            (Inl (ConfigurationError ''`ACCOUNT_SCHEMA_CLS` has not been set in the config.''),
             w)
        | Inr True \<Rightarrow>
            (propagate (fst (perform_import (ACCOUNT_SCHEMA_CLS (active_config w)) w)),
             snd (perform_import (ACCOUNT_SCHEMA_CLS (active_config w)) w)))
   \<and> get_serializer_cls perform_import w =
       (case truthy (ACCOUNT_SERIALIZER_CLS (active_config w)) of
          Inl e \<Rightarrow> (Inl (Raised e), w)
        | Inr False \<Rightarrow>
            (Inl (ConfigurationError
               ''`ACCOUNT_SERIALIZER_CLS` has not been set in the config.''), w)
        | Inr True \<Rightarrow>
            (propagate (fst (perform_import (ACCOUNT_SERIALIZER_CLS (active_config w)) w)),
             snd (perform_import (ACCOUNT_SERIALIZER_CLS (active_config w)) w)))"
proof -
  have schema: "(\<exists>m. fst (get_schema_cls perform_import w) = Inl (ConfigurationError m))
      = (truthy (ACCOUNT_SCHEMA_CLS (active_config w)) = Inr False)"
    by (simp add: get_schema_cls_eq propagate_not_ConfigurationError
        split: sum.split bool.split)
  have serializer:
    "(\<exists>m. fst (get_serializer_cls perform_import w) = Inl (ConfigurationError m))
      = (truthy (ACCOUNT_SERIALIZER_CLS (active_config w)) = Inr False)"
    by (simp add: get_serializer_cls_eq propagate_not_ConfigurationError
        split: sum.split bool.split)
  show ?thesis
    using schema serializer get_schema_cls_eq [of perform_import w]
      get_serializer_cls_eq [of perform_import w]
    by (intro conjI)
qed

theorem get_cls_raises_iff_setting_absent_witness:
  "get_schema_cls example_perform_import example_config_world
     = (Inr (PStr ''app.schemas.AccountSchema''), example_config_world\<lparr>store := 1\<rparr>)
   \<and> get_serializer_cls example_perform_import example_config_world
     = (Inl (ConfigurationError ''`ACCOUNT_SERIALIZER_CLS` has not been set in the config.''),
        example_config_world)
   \<and> fst (get_schema_cls example_perform_import
        (example_world\<lparr>active_config :=
           \<lparr>ACCOUNT_SCHEMA_CLS = PFloat (Float_finite False 0 0),
            ACCOUNT_SERIALIZER_CLS = PNone\<rparr>\<rparr>))
     = Inl (ConfigurationError ''`ACCOUNT_SCHEMA_CLS` has not been set in the config.'')"
  using get_cls_raises_iff_setting_absent [of example_perform_import example_config_world]
    get_cls_raises_iff_setting_absent
      [of example_perform_import
          "example_world\<lparr>active_config :=
             \<lparr>ACCOUNT_SCHEMA_CLS = PFloat (Float_finite False 0 0),
              ACCOUNT_SERIALIZER_CLS = PNone\<rparr>\<rparr>"]
  by (simp add: example_config_world_def example_world_def example_perform_import_def
      propagate_def)

section \<open>What each handler forwards\<close>

text \<open>
  Claim C2. For an authenticated request (the account of the context has an \<open>id\<close>),
  \<open>ChangePasswordResource_post\<close> runs \<^verbatim>\<open>ChangeAccountPasswordUseCase\<close> with
  \<^verbatim>\<open>ChangeAccountPasswordRequestObject\<close>, the payload
  \<^verbatim>\<open>{'identifier': context.account.id, 'data': request.payload}\<close> and
  \<^verbatim>\<open>no_serialization=True\<close>, and returns the runner's result and state as they are.
\<close>

theorem ChangePasswordResource_post_forwards:
  fixes process_request :: "('e, 's) process_request"
  assumes "getattr_py (context_account w) ''id'' = (Inr ident :: 'e exn + pyval)"
  shows "ChangePasswordResource_post process_request w =
    (propagate (fst (process_request ChangeAccountPasswordUseCase
        ChangeAccountPasswordRequestObject
        (PDict [(''identifier'', ident), (''data'', request_payload w)]) True w)),
     snd (process_request ChangeAccountPasswordUseCase
        ChangeAccountPasswordRequestObject
        (PDict [(''identifier'', ident), (''data'', request_payload w)]) True w))"
  using assms
  by (simp add: ChangePasswordResource_post_def ChangePasswordResource_payload_def
      call_process_request_def split: prod.split)

theorem ChangePasswordResource_post_forwards_witness:
  "getattr_py (context_account example_world) ''id'' = (Inr (PInt 7) :: unit exn + pyval)
   \<and> ChangePasswordResource_post echo_process_request example_world =
       (Inr (PDict [(''identifier'', PInt 7),
                    (''data'', PDict [(''identifier'', PInt 99),
                                      (''new_password'', PStr ''s3cret'')])]),
        example_world\<lparr>store := 1\<rparr>)"
proof -
  have h: "getattr_py (context_account example_world) ''id'' = (Inr (PInt 7) :: unit exn + pyval)"
    by (simp add: example_world_def)
  show ?thesis
    using h ChangePasswordResource_post_forwards [OF h, of echo_process_request]
    by (simp add: echo_process_request_def propagate_def example_world_def)
qed



text \<open>
  Claim C4. \<open>LoginResource_post\<close> runs \<^verbatim>\<open>LoginUseCase\<close> with \<^verbatim>\<open>LoginRequestObject\<close>,
  the request payload and \<^verbatim>\<open>no_serialization=True\<close>. A response that is an \<^verbatim>\<open>Entity\<close>
  comes back as its \<^verbatim>\<open>to_dict()\<close>, any other response as it is, and an exception of
  the runner passes through.
\<close>

theorem LoginResource_post_forwards:
  "LoginResource_post process_request to_dict w =
     (case process_request LoginUseCase LoginRequestObject (request_payload w) True w of
        (Inl e, w') \<Rightarrow> (Inl (Propagated e), w')
      | (Inr response, w') \<Rightarrow>
          (if isinstance_Entity response
           then (propagate (fst (to_dict response w')), snd (to_dict response w'))
           else (Inr response, w')))"
  by (simp add: LoginResource_post_def call_process_request_def propagate_def
      split: prod.split sum.split)

theorem LoginResource_post_forwards_witness:
  "LoginResource_post login_process_request example_to_dict example_world =
     (Inr (PDict [(''id'', PInt 7), (''username'', PStr ''ann'')]),
      example_world\<lparr>store := 1\<rparr>)
   \<and> LoginResource_post echo_process_request example_to_dict example_world =
     (Inr (request_payload example_world), example_world\<lparr>store := 1\<rparr>)"
  using LoginResource_post_forwards [of login_process_request example_to_dict example_world]
    LoginResource_post_forwards [of echo_process_request example_to_dict example_world]
  by (simp add: login_process_request_def echo_process_request_def example_to_dict_def
      example_world_def propagate_def)

text \<open>
  Claim C5. \<open>ResetPasswordResource_post\<close> runs \<^verbatim>\<open>ResetPasswordUsecase\<close> with
  \<^verbatim>\<open>ResetPasswordRequestObject\<close>, the payload
  \<^verbatim>\<open>{'token': token, 'data': request.payload}\<close> and \<^verbatim>\<open>no_serialization=True\<close>, and
  returns the runner's result and state as they are.
\<close>

theorem ResetPasswordResource_post_forwards:
  "ResetPasswordResource_post process_request token w =
    (propagate (fst (process_request ResetPasswordUsecase ResetPasswordRequestObject
        (PDict [(''token'', token), (''data'', request_payload w)]) True w)),
     snd (process_request ResetPasswordUsecase ResetPasswordRequestObject
        (PDict [(''token'', token), (''data'', request_payload w)]) True w))"
  by (simp add: ResetPasswordResource_post_def call_process_request_def split: prod.split)

theorem ResetPasswordResource_post_forwards_witness:
  "ResetPasswordResource_post echo_process_request (PStr ''tok-123'') example_world =
     (Inr (PDict [(''token'', PStr ''tok-123''), (''data'', request_payload example_world)]),
      example_world\<lparr>store := 1\<rparr>)"
  using ResetPasswordResource_post_forwards
    [of echo_process_request "PStr ''tok-123''" example_world]
  by (simp add: echo_process_request_def propagate_def example_world_def)

text \<open>
  Claim C6. \<open>LogoutResource_post\<close> runs \<^verbatim>\<open>LogoutUseCase\<close> with \<^verbatim>\<open>LogoutRequestObject\<close>,
  the payload \<^verbatim>\<open>{'account': context.account}\<close> and \<^verbatim>\<open>no_serialization=True\<close>, and
  returns the runner's result and state as they are.
\<close>

theorem LogoutResource_post_forwards:
  "LogoutResource_post process_request w =
    (propagate (fst (process_request LogoutUseCase LogoutRequestObject
        (PDict [(''account'', context_account w)]) True w)),
     snd (process_request LogoutUseCase LogoutRequestObject
        (PDict [(''account'', context_account w)]) True w))"
  by (simp add: LogoutResource_post_def call_process_request_def split: prod.split)

theorem LogoutResource_post_forwards_witness:
  "LogoutResource_post echo_process_request example_world =
     (Inr (PDict [(''account'',
                   PEntity No_truth_method [(''id'', PInt 7), (''username'', PStr ''ann'')])]),
      example_world\<lparr>store := 1\<rparr>)"
  using LogoutResource_post_forwards [of echo_process_request example_world]
  by (simp add: echo_process_request_def propagate_def example_world_def)

text \<open>
  Claim C7. \<open>SendResetPasswordEmailResource_post\<close> runs
  \<^verbatim>\<open>SendResetPasswordEmailUsecase\<close> with \<^verbatim>\<open>SendResetPasswordEmailRequestObject\<close>, the
  request payload itself (no key added, none removed) and \<^verbatim>\<open>no_serialization=True\<close>,
  and returns the runner's result and state as they are.
\<close>

theorem SendResetPasswordEmailResource_post_forwards:
  "SendResetPasswordEmailResource_post process_request w =
    (propagate (fst (process_request SendResetPasswordEmailUsecase
        SendResetPasswordEmailRequestObject (request_payload w) True w)),
     snd (process_request SendResetPasswordEmailUsecase
        SendResetPasswordEmailRequestObject (request_payload w) True w))"
  by (simp add: SendResetPasswordEmailResource_post_def call_process_request_def
      split: prod.split)

theorem SendResetPasswordEmailResource_post_forwards_witness:
  "SendResetPasswordEmailResource_post echo_process_request example_world =
     (Inr (PDict [(''identifier'', PInt 99), (''new_password'', PStr ''s3cret'')]),
      example_world\<lparr>store := 1\<rparr>)"
  using SendResetPasswordEmailResource_post_forwards [of echo_process_request example_world]
  by (simp add: echo_process_request_def propagate_def example_world_def)

section \<open>The routing table\<close>

lemma views_complete: "set views = UNIV"
proof -
  have "v \<in> set views" for v
    by (cases v) (simp_all add: views_def)
  then show ?thesis by blast
qed

lemma length_views: "length views = 7"
  by (simp add: views_def)

lemma distinct_usecases: "distinct (map usecase_cls views)"
  by (simp add: views_def)

text \<open>
  Claim C8, as the module has it. The module defines seven views, not six, and each
  delegates to one use-case class with the request-object class of the same name: no
  two views share a use-case or a request object. The change-password,
  send-reset-email, reset-password, login and logout views are the ones whose class
  body defines a handler, and each defines a POST handler only.
\<close>

theorem views_delegate_to_usecases:
  "map (\<lambda>v. (v, usecase_cls v, request_object_cls v)) views =
     [(CreateAccountResource, CreateAccountUseCase, CreateAccountRequestObject),
      (UpdateAccountResource, UpdateAccountUseCase, UpdateAccountRequestObject),
      (ChangePasswordResource, ChangeAccountPasswordUseCase, ChangeAccountPasswordRequestObject),
      (SendResetPasswordEmailResource, SendResetPasswordEmailUsecase,
         SendResetPasswordEmailRequestObject),
      (ResetPasswordResource, ResetPasswordUsecase, ResetPasswordRequestObject),
      (LoginResource, LoginUseCase, LoginRequestObject),
      (LogoutResource, LogoutUseCase, LogoutRequestObject)]
   \<and> set views = UNIV
   \<and> distinct (map usecase_cls views)
   \<and> distinct (map request_object_cls views)
   \<and> map (\<lambda>v. (v, handlers v)) (filter (\<lambda>v. handlers v \<noteq> []) views) =
       [(ChangePasswordResource, [POST]), (SendResetPasswordEmailResource, [POST]),
        (ResetPasswordResource, [POST]), (LoginResource, [POST]), (LogoutResource, [POST])]"
  using views_complete by (simp add: views_def)

text \<open>
  The claim as written counts six operations; the use-case classes the views delegate
  to are seven, pairwise different.
\<close>

theorem six_operations_counterexample:
  "\<not> (card (set (map usecase_cls views)) = 6)"
  using distinct_card [OF distinct_usecases] by (simp add: length_views)

section \<open>The authentication guard\<close>

text \<open>
  Claim C10, as the module has it. \<^verbatim>\<open>is_authenticated()\<close> guards the create, update,
  change-password and logout views. Three views carry no guard: the two password-reset
  views and the login view.
\<close>

theorem guarded_views:
  "guarded CreateAccountResource \<and> guarded UpdateAccountResource
   \<and> guarded ChangePasswordResource \<and> guarded LogoutResource
   \<and> {v. \<not> guarded v} =
       {SendResetPasswordEmailResource, ResetPasswordResource, LoginResource}"
proof -
  have "(\<not> guarded v) =
      (v \<in> {SendResetPasswordEmailResource, ResetPasswordResource, LoginResource})" for v
    by (cases v) (simp_all add: guarded_def)
  then show ?thesis by (auto simp: guarded_def)
qed

text \<open>
  The login view is reachable without an authenticated account too, so the two
  password-reset views are not the only ones.
\<close>

theorem only_reset_views_unguarded_counterexample:
  "\<not> (\<forall>v. \<not> guarded v \<longrightarrow> v \<in> {SendResetPasswordEmailResource, ResetPasswordResource})"
proof
  assume "\<forall>v. \<not> guarded v \<longrightarrow> v \<in> {SendResetPasswordEmailResource, ResetPasswordResource}"
  then have "\<not> guarded LoginResource \<longrightarrow>
      LoginResource \<in> {SendResetPasswordEmailResource, ResetPasswordResource}"
    by (rule spec)
  then show False by (simp add: guarded_def)
qed

section \<open>What a handler leaves alone\<close>

text \<open>
  Claim C9. For a request to any of the seven views, the module changes nothing by
  itself: the world after the request is the world the imported code it called returned.
  For the five views with a handler of their own that is the one invocation of the
  use-case runner (followed, at login, by the \<^verbatim>\<open>to_dict\<close> of an \<^verbatim>\<open>Entity\<close> response),
  and the world the request started in where change-password raises before invoking.
  For the create and update views it is the handler of the imported base class. The
  getters of the mixin, the only code that reads the configuration, return the world of
  \<^verbatim>\<open>perform_import\<close> when the setting is truthy and the world they were given otherwise.
\<close>

theorem handlers_change_only_through_usecase:
  fixes process_request :: "('e, 's) process_request"
    and perform_import :: "('e, 'c, 's) perform_import"
    and base_handler :: "('e, 'c, 's) base_handler"
    and to_dict :: "('e, 's) to_dict"
  shows "snd (get_schema_cls perform_import w) =
      (if truthy (ACCOUNT_SCHEMA_CLS (active_config w)) = Inr True
       then snd (perform_import (ACCOUNT_SCHEMA_CLS (active_config w)) w) else w)
   \<and> snd (get_serializer_cls perform_import w) =
      (if truthy (ACCOUNT_SERIALIZER_CLS (active_config w)) = Inr True
       then snd (perform_import (ACCOUNT_SERIALIZER_CLS (active_config w)) w) else w)
   \<and> snd (CreateAccountResource_dispatch base_handler perform_import w) =
       snd (base_handler CreateAccountUseCase CreateAccountRequestObject
              (get_schema_cls perform_import) (get_serializer_cls perform_import) w)
   \<and> snd (UpdateAccountResource_dispatch base_handler perform_import w) =
       snd (base_handler UpdateAccountUseCase UpdateAccountRequestObject
              (get_schema_cls perform_import) (get_serializer_cls perform_import) w)
   \<and> snd (ChangePasswordResource_post process_request w) =
      (case (getattr_py (context_account w) ''id'' :: 'e exn + pyval) of
         Inl e \<Rightarrow> w
       | Inr ident \<Rightarrow>
           snd (process_request ChangeAccountPasswordUseCase
                  ChangeAccountPasswordRequestObject
                  (PDict [(''identifier'', ident), (''data'', request_payload w)]) True w))
   \<and> snd (SendResetPasswordEmailResource_post process_request w) =
       snd (process_request SendResetPasswordEmailUsecase
              SendResetPasswordEmailRequestObject (request_payload w) True w)
   \<and> snd (ResetPasswordResource_post process_request token w) =
       snd (process_request ResetPasswordUsecase ResetPasswordRequestObject
              (PDict [(''token'', token), (''data'', request_payload w)]) True w)
   \<and> snd (LoginResource_post process_request to_dict w) =
      (case process_request LoginUseCase LoginRequestObject (request_payload w) True w of
         (Inl e, w') \<Rightarrow> w'
       | (Inr response, w') \<Rightarrow>
           if isinstance_Entity response then snd (to_dict response w') else w')
   \<and> snd (LogoutResource_post process_request w) =
       snd (process_request LogoutUseCase LogoutRequestObject
              (PDict [(''account'', context_account w)]) True w)"
proof -
  have getters: "snd (get_schema_cls perform_import w) =
      (if truthy (ACCOUNT_SCHEMA_CLS (active_config w)) = Inr True
       then snd (perform_import (ACCOUNT_SCHEMA_CLS (active_config w)) w) else w)"
    "snd (get_serializer_cls perform_import w) =
      (if truthy (ACCOUNT_SERIALIZER_CLS (active_config w)) = Inr True
       then snd (perform_import (ACCOUNT_SERIALIZER_CLS (active_config w)) w) else w)"
    by (simp_all add: get_schema_cls_eq get_serializer_cls_eq split: sum.split bool.split)
  have inherited:
    "snd (CreateAccountResource_dispatch base_handler perform_import w) =
       snd (base_handler CreateAccountUseCase CreateAccountRequestObject
              (get_schema_cls perform_import) (get_serializer_cls perform_import) w)"
    "snd (UpdateAccountResource_dispatch base_handler perform_import w) =
       snd (base_handler UpdateAccountUseCase UpdateAccountRequestObject
              (get_schema_cls perform_import) (get_serializer_cls perform_import) w)"
    by (simp_all add: CreateAccountResource_dispatch_def UpdateAccountResource_dispatch_def)
  have change: "snd (ChangePasswordResource_post process_request w) =
      (case (getattr_py (context_account w) ''id'' :: 'e exn + pyval) of
         Inl e \<Rightarrow> w
       | Inr ident \<Rightarrow>
           snd (process_request ChangeAccountPasswordUseCase
                  ChangeAccountPasswordRequestObject
                  (PDict [(''identifier'', ident), (''data'', request_payload w)]) True w))"
    by (simp add: ChangePasswordResource_post_def ChangePasswordResource_payload_def
        call_process_request_def split: sum.split prod.split)
  have forwarding:
    "snd (SendResetPasswordEmailResource_post process_request w) =
       snd (process_request SendResetPasswordEmailUsecase
              SendResetPasswordEmailRequestObject (request_payload w) True w)"
    "snd (ResetPasswordResource_post process_request token w) =
       snd (process_request ResetPasswordUsecase ResetPasswordRequestObject
              (PDict [(''token'', token), (''data'', request_payload w)]) True w)"
    "snd (LogoutResource_post process_request w) =
       snd (process_request LogoutUseCase LogoutRequestObject
              (PDict [(''account'', context_account w)]) True w)"
    by (simp_all add: SendResetPasswordEmailResource_post_def ResetPasswordResource_post_def
        LogoutResource_post_def call_process_request_def split: prod.split)
  have login: "snd (LoginResource_post process_request to_dict w) =
      (case process_request LoginUseCase LoginRequestObject (request_payload w) True w of
         (Inl e, w') \<Rightarrow> w'
       | (Inr response, w') \<Rightarrow>
           if isinstance_Entity response then snd (to_dict response w') else w')"
    by (simp add: LoginResource_post_def call_process_request_def propagate_def
        split: prod.split sum.split)
  show ?thesis
    using getters inherited change forwarding login by (intro conjI)
qed

theorem handlers_change_only_through_usecase_witness:
  "snd (ChangePasswordResource_post (\<lambda>uc ro p ns w. (Inr p :: unit + pyval, w)) example_world)
     = example_world
   \<and> snd (LoginResource_post login_process_request
        (\<lambda>v w. (Inr v :: unit + pyval, w\<lparr>store := store w + 10\<rparr>)) example_world)
     = example_world\<lparr>store := 11\<rparr>
   \<and> snd (LogoutResource_post echo_process_request example_world)
     = example_world\<lparr>store := 1\<rparr>
   \<and> snd (ChangePasswordResource_post echo_process_request
        (example_world\<lparr>context_account := PNone\<rparr>))
     = example_world\<lparr>context_account := PNone\<rparr>
   \<and> snd (get_serializer_cls example_perform_import example_config_world)
     = example_config_world
   \<and> snd (CreateAccountResource_dispatch example_base_handler example_perform_import
        example_config_world)
     = example_config_world\<lparr>store := 1\<rparr>"
  using handlers_change_only_through_usecase
      [of example_perform_import example_world example_base_handler
          "\<lambda>uc ro p ns w. (Inr p :: unit + pyval, w)" "PStr ''tok-123''" example_to_dict]
    handlers_change_only_through_usecase
      [of example_perform_import example_world example_base_handler
          login_process_request "PStr ''tok-123''"
          "\<lambda>v w. (Inr v :: unit + pyval, w\<lparr>store := store w + 10\<rparr>)"]
    handlers_change_only_through_usecase
      [of example_perform_import example_world example_base_handler
          echo_process_request "PStr ''tok-123''" example_to_dict]
    handlers_change_only_through_usecase
      [of example_perform_import "example_world\<lparr>context_account := PNone\<rparr>"
          example_base_handler echo_process_request "PStr ''tok-123''" example_to_dict]
    handlers_change_only_through_usecase
      [of example_perform_import example_config_world example_base_handler
          echo_process_request "PStr ''tok-123''" example_to_dict]
  by (simp add: echo_process_request_def login_process_request_def example_world_def
      example_config_world_def example_perform_import_def example_base_handler_def
      get_schema_cls_def propagate_def)

end
